theory Spec2Isabelle
  imports Complex_Main "HOL-Library.Multiset" "HOL-Library.AList"
begin

section \<open>Data shared by the chat view and the dashboard\<close>

text \<open>
  The front end works on the JSON object that the estimate endpoint returns. A property
  that is missing, \<open>undefined\<close> or \<open>null\<close> is \<open>None\<close>; a number of the
  object is finite, and is given by its real value.

  The results of the arithmetic are values of \<open>jsnum\<close>: a finite number, one of the
  two infinities, or \<open>NaN\<close>. The two zeros of a double are not told apart; no
  comparison of the code does. In the dashboard the sums and quotients are taken exactly:
  the rounding of its double arithmetic is not modelled, only the division by zero is. In
  the selection loop, where the comparison of two scores decides the winner, the
  operations that compute a score round, and the rounding is explicit (\<open>js_add\<close>,
  \<open>js_sub\<close> below).

  The names of models and the texts fixed in the source are strings of 8-bit characters.
  The prompt, which the user types, is a list of UTF-16 code units (\<open>jsstring\<close>).
\<close>

record accuracy_scores =
  as_overall_accuracy :: "real option"

record estimate =
  model_name :: "string option"
  model :: "string option"
  carbon_emitted_kgco2 :: "real option"
  carbon_emitted_grams :: "real option"
  energy_consumed_kwh :: "real option"
  total_tokens :: "real option"
  overall_accuracy :: "real option"
  accuracy_scores :: "accuracy_scores option"
  response_text :: "string option"

text \<open>\<open>a || d\<close> on an optional number: \<open>undefined\<close>, \<open>null\<close> and \<open>0\<close> are falsy.\<close>

fun num_or :: "real option \<Rightarrow> real \<Rightarrow> real" where
  "num_or None d = d"
| "num_or (Some x) d = (if x \<noteq> 0 then x else d)"

text \<open>\<open>a || d\<close> on an optional string: the empty string is falsy.\<close>

fun str_or :: "string option \<Rightarrow> string \<Rightarrow> string" where
  "str_or None d = d"
| "str_or (Some s) d = (if s \<noteq> [] then s else d)"

text \<open>
  The result of \<open>x / y\<close>. JavaScript does not raise on a zero divisor: it yields
  \<open>NaN\<close> or an infinity, kept apart from the finite results here.
\<close>

datatype jsnum = Num real | PosInf | NegInf | NaN

definition js_div :: "real \<Rightarrow> real \<Rightarrow> jsnum" where
  "js_div x y =
     (if y \<noteq> 0 then Num (x / y)
      else if x = 0 then NaN
      else if 0 < x then PosInf else NegInf)"

text \<open>
  Double arithmetic. \<open>fl\<close> is the rounding of the engine: \<open>fl x\<close> is the double
  that the exact result \<open>x\<close> of an operation on two finite doubles is rounded to, an
  infinity when \<open>x\<close> is beyond the range of the doubles. It is a parameter of the
  model; what is proved holds for every rounding, so for the round-to-nearest of IEEE 754.
  The cases of the infinities and of \<open>NaN\<close> are those of IEEE 754.
\<close>

fun js_add :: "(real \<Rightarrow> jsnum) \<Rightarrow> jsnum \<Rightarrow> jsnum \<Rightarrow> jsnum" where
  "js_add fl (Num x) (Num y) = fl (x + y)"
| "js_add fl NaN b = NaN"
| "js_add fl a NaN = NaN"
| "js_add fl PosInf NegInf = NaN"
| "js_add fl NegInf PosInf = NaN"
| "js_add fl PosInf b = PosInf"
| "js_add fl a PosInf = PosInf"
| "js_add fl NegInf b = NegInf"
| "js_add fl a NegInf = NegInf"

fun js_neg :: "jsnum \<Rightarrow> jsnum" where
  "js_neg (Num x) = Num (- x)"
| "js_neg PosInf = NegInf"
| "js_neg NegInf = PosInf"
| "js_neg NaN = NaN"

fun js_sub :: "(real \<Rightarrow> jsnum) \<Rightarrow> jsnum \<Rightarrow> jsnum \<Rightarrow> jsnum" where
  "js_sub fl (Num x) (Num y) = fl (x - y)"
| "js_sub fl a b = js_add fl a (js_neg b)"

text \<open>\<open>a < b\<close> on doubles: false whenever one side is \<open>NaN\<close>.\<close>

fun js_lt :: "jsnum \<Rightarrow> jsnum \<Rightarrow> bool" where
  "js_lt (Num x) (Num y) = (x < y)"
| "js_lt (Num x) PosInf = True"
| "js_lt NegInf (Num y) = True"
| "js_lt NegInf PosInf = True"
| "js_lt a b = False"

section \<open>Dashboard.jsx: calculateStats\<close>

record model_data =
  mb_count :: nat
  mb_totalCarbon :: real
  mb_totalEnergy :: real
  mb_totalAccuracy :: real
  mb_accuracyCount :: nat

record top_model =
  tm_name :: string
  tm_count :: nat
  tm_carbonPerRequest :: jsnum
  tm_accuracyAvg :: jsnum

text \<open>
  \<open>modelBreakdown\<close> is a JavaScript object used as a dictionary. \<open>Object.entries\<close>
  lists its keys in the order in which they were first assigned (for keys that are not
  array indices, as model names are), so it is an association list in insertion order.
  A model name that is a property of every object (\<open>constructor\<close>, \<open>toString\<close>)
  is outside the model as well: the code finds the inherited property and creates no entry.
\<close>

type_synonym breakdown = "(string \<times> model_data) list"

record stats =
  totalRequests :: nat
  totalCarbon :: real
  averageAccuracy :: jsnum
  totalEnergy :: real
  modelBreakdown :: breakdown
  topModels :: "top_model list"

text \<open>
  \<open>let accuracy = e.overall_accuracy; if (accuracy === undefined || accuracy === null)
  accuracy = e.accuracy_scores?.overall_accuracy;\<close>
\<close>

definition entry_accuracy :: "estimate \<Rightarrow> real option" where
  "entry_accuracy e =
     (case overall_accuracy e of
        Some a \<Rightarrow> Some a
      | None \<Rightarrow> (case accuracy_scores e of
                   None \<Rightarrow> None
                 | Some sc \<Rightarrow> as_overall_accuracy sc))"

text \<open>\<open>accuracy && accuracy >= 0 && accuracy <= 100\<close>: the first conjunct is the
  truthiness of the number, false for a missing value and for \<open>0\<close>.\<close>

definition accuracy_ok :: "real option \<Rightarrow> bool" where
  "accuracy_ok acc = (case acc of None \<Rightarrow> False | Some a \<Rightarrow> a \<noteq> 0 \<and> 0 \<le> a \<and> a \<le> 100)"

definition validAccuracies :: "estimate list \<Rightarrow> real list" where
  "validAccuracies estimates =
     List.map_filter (\<lambda>acc. acc)
       (map (\<lambda>e. let accuracy = entry_accuracy e
                 in if accuracy_ok accuracy then accuracy else None) estimates)"

definition modelName_of :: "estimate \<Rightarrow> string" where
  "modelName_of e = str_or (model_name e) (str_or (model e) ''unknown'')"

definition new_model_data :: model_data where
  "new_model_data =
     \<lparr>mb_count = 0, mb_totalCarbon = 0, mb_totalEnergy = 0,
      mb_totalAccuracy = 0, mb_accuracyCount = 0\<rparr>"

text \<open>The body of the \<open>forEach\<close> callback applied to the entry of the model.\<close>

definition bump_model_data :: "estimate \<Rightarrow> model_data \<Rightarrow> model_data" where
  "bump_model_data e d =
     (let d1 = d\<lparr>mb_count := mb_count d + 1\<rparr>;
          d2 = d1\<lparr>mb_totalCarbon := mb_totalCarbon d1 + num_or (carbon_emitted_kgco2 e) 0\<rparr>;
          d3 = d2\<lparr>mb_totalEnergy := mb_totalEnergy d2 + num_or (energy_consumed_kwh e) 0\<rparr>;
          accuracy = entry_accuracy e
      in if accuracy_ok accuracy
         then d3\<lparr>mb_totalAccuracy := mb_totalAccuracy d3 + the accuracy,
                 mb_accuracyCount := mb_accuracyCount d3 + 1\<rparr>
         else d3)"

definition breakdown_step :: "breakdown \<Rightarrow> estimate \<Rightarrow> breakdown" where
  "breakdown_step mb e =
     (let modelName = modelName_of e;
          mb1 = (if map_of mb modelName = None
                 then AList.update modelName new_model_data mb else mb)
      in AList.map_entry modelName (bump_model_data e) mb1)"

definition top_model_of :: "string \<times> model_data \<Rightarrow> top_model" where
  "top_model_of = (\<lambda>(name, data).
     \<lparr>tm_name = name,
      tm_count = mb_count data,
      tm_carbonPerRequest = js_div (mb_totalCarbon data) (real (mb_count data)),
      tm_accuracyAvg = (if mb_accuracyCount data > 0
                        then js_div (mb_totalAccuracy data) (real (mb_accuracyCount data))
                        else Num 0)\<rparr>)"

text \<open>
  \<open>.sort((a, b) => b.count - a.count)\<close>: \<open>Array.prototype.sort\<close> is stable, so the
  result is the stable sort by descending count, which \<open>sort_key\<close> on the negated count
  computes.
\<close>

definition sort_by_count_desc :: "top_model list \<Rightarrow> top_model list" where
  "sort_by_count_desc ms = sort_key (\<lambda>m. - int (tm_count m)) ms"

definition calculateStats :: "estimate list \<Rightarrow> stats" where
  "calculateStats estimates =
     (let totalRequests = length estimates;
          totalCarbon = foldl (\<lambda>sum e. sum + num_or (carbon_emitted_kgco2 e) 0) 0 estimates;
          totalEnergy = foldl (\<lambda>sum e. sum + num_or (energy_consumed_kwh e) 0) 0 estimates;
          valid = validAccuracies estimates;
          totalAccuracy = foldl (\<lambda>sum acc. sum + acc) 0 valid;
          averageAccuracy = (if length valid > 0
                             then js_div totalAccuracy (real (length valid)) else Num 0);
          modelBreakdown = foldl breakdown_step [] estimates;
          topModels = sort_by_count_desc (map top_model_of modelBreakdown)
      in \<lparr>totalRequests = totalRequests, totalCarbon = totalCarbon,
          averageAccuracy = averageAccuracy, totalEnergy = totalEnergy,
          modelBreakdown = modelBreakdown, topModels = topModels\<rparr>)"

text \<open>The state of the component before any effect has run.\<close>

definition initial_stats :: stats where
  "initial_stats =
     \<lparr>totalRequests = 0, totalCarbon = 0, averageAccuracy = Num 0, totalEnergy = 0,
      modelBreakdown = [], topModels = []\<rparr>"

text \<open>
  \<open>useEffect(() => { if (estimates && estimates.length > 0) calculateStats(); })\<close>:
  the statistics shown for a history by a freshly mounted dashboard.
\<close>

definition Dashboard_stats :: "estimate list \<Rightarrow> stats" where
  "Dashboard_stats estimates =
     (if length estimates > 0 then calculateStats estimates else initial_stats)"

text \<open>\<open>formatPercentage\<close>: the number that is handed to \<open>toFixed(1)\<close>.\<close>

definition formatPercentage_value :: "real \<Rightarrow> real" where
  "formatPercentage_value val = (if val > 1 then val else val * 100)"

section \<open>ChatCarbon.jsx: handleSingleEstimate\<close>

subsection \<open>Strings\<close>

type_synonym jsstring = "nat list"

text \<open>A text of the source, as code units.\<close>

definition ascii :: "string \<Rightarrow> jsstring" where
  "ascii s = map of_char s"

text \<open>
  \<open>String.prototype.trim\<close> strips white space and line terminators from both ends:
  the tab, line feed, vertical tab, form feed, carriage return and the space, the no-break
  space U+00A0, the Ogham space mark U+1680, U+2000 to U+200A, the line and paragraph
  separators U+2028 and U+2029, U+202F, U+205F, the ideographic space U+3000 and the byte
  order mark U+FEFF.
\<close>

definition is_whitespace :: "nat \<Rightarrow> bool" where
  "is_whitespace c =
     (c = 0x09 \<or> c = 0x0A \<or> c = 0x0B \<or> c = 0x0C \<or> c = 0x0D \<or> c = 0x20 \<or>
      c = 0xA0 \<or> c = 0x1680 \<or> (0x2000 \<le> c \<and> c \<le> 0x200A) \<or>
      c = 0x2028 \<or> c = 0x2029 \<or> c = 0x202F \<or> c = 0x205F \<or> c = 0x3000 \<or> c = 0xFEFF)"

definition trim :: "jsstring \<Rightarrow> jsstring" where
  "trim s = rev (dropWhile is_whitespace (rev (dropWhile is_whitespace s)))"

text \<open>
  \<open>toLowerCase\<close> on the letters A to Z. Beyond ASCII only U+0130 and the Kelvin sign
  U+212A have an ASCII letter in their lower case (\<open>i\<close> followed by U+0307, and \<open>k\<close>):
  no keyword below contains \<open>k\<close> or ends in \<open>i\<close>, so leaving these code units as they
  are does not change whether a keyword occurs.
\<close>

definition lower_char :: "nat \<Rightarrow> nat" where
  "lower_char c = (if 0x41 \<le> c \<and> c \<le> 0x5A then c + 0x20 else c)"

definition toLowerCase :: "jsstring \<Rightarrow> jsstring" where
  "toLowerCase s = map lower_char s"

fun startsWith :: "jsstring \<Rightarrow> jsstring \<Rightarrow> bool" where
  "startsWith s [] = True"
| "startsWith [] (k # ks) = False"
| "startsWith (c # cs) (k # ks) = (c = k \<and> startsWith cs ks)"

fun includes_str :: "jsstring \<Rightarrow> jsstring \<Rightarrow> bool" where
  "includes_str [] k = (k = [])"
| "includes_str (c # cs) k = (startsWith (c # cs) k \<or> includes_str cs k)"

definition imageKeywords :: "jsstring list" where
  "imageKeywords =
     map ascii
       [''image'', ''picture'', ''photo'', ''draw'', ''generate an image'', ''show me'',
        ''visualize'', ''create a picture'', ''generate a photo'', ''generate a drawing'']"

definition detectPromptType :: "jsstring \<Rightarrow> string" where
  "detectPromptType prompt =
     (let lowerPrompt = toLowerCase prompt
      in if list_ex (\<lambda>k. includes_str lowerPrompt k) imageKeywords then ''image'' else ''text'')"

subsection \<open>Application state and the estimate endpoint\<close>

datatype message_accuracy = AccScores accuracy_scores | AccNumber real | AccEmpty

record message =
  msg_id :: nat
  msg_type :: string
  msg_prompt :: jsstring
  msg_model :: string
  msg_carbon :: real
  msg_energy :: real
  msg_tokens :: real
  msg_accuracy :: message_accuracy
  msg_response_text :: string
  msg_timestamp :: string

record chat =
  chat_id :: nat
  chat_title :: jsstring
  chat_messages :: "message list"

record comparison =
  cmp_model :: string
  cmp_carbon :: real
  cmp_accuracy :: real

text \<open>The \<open>useState\<close> cells of the component that the handler reads or writes,
  and the selections it leaves alone. \<open>comparisonResults\<close> has the shape that this
  handler stores in it.\<close>

record app_state =
  input :: jsstring
  selectedModels :: "string list"
  chats :: "chat list"
  activeChatId :: "nat option"
  theme :: string
  loading :: bool
  availableModels :: "string list"
  showComparison :: bool
  comparisonResults :: "comparison list option"
  allEstimates :: "estimate list"
  selectedMode :: string
  error :: string

record payload =
  pl_prompt :: jsstring
  pl_model_name :: string
  pl_evaluate_accuracy :: bool
  pl_auto_select_model :: bool
  pl_simulate :: bool

text \<open>
  What one \<open>POST /estimate\<close> comes to inside the \<open>try\<close> block of the loop:
  an exception (\<open>fetch\<close> or \<open>response.json()\<close> rejects, or the body is
  \<open>null\<close>), a response whose \<open>ok\<close> flag is false, or the parsed result object.
\<close>

datatype fetch_outcome = Threw | NotOk | Json estimate

text \<open>The world outside the component: the endpoint, the rounding of the engine's
  double arithmetic, the two readings of \<open>Date.now()\<close> and the string of
  \<open>toLocaleTimeString()\<close>.\<close>

record env =
  estimate_api :: "payload \<Rightarrow> fetch_outcome"
  rounding :: "real \<Rightarrow> jsnum"
  now_chat :: nat
  now_message :: nat
  locale_time :: string

subsection \<open>Scoring one result\<close>

text \<open>\<open>result.carbon_emitted_kgco2 || result.carbon_emitted_grams || 0\<close>\<close>

definition result_carbon :: "estimate \<Rightarrow> real" where
  "result_carbon result =
     num_or (carbon_emitted_kgco2 result) (num_or (carbon_emitted_grams result) 0)"

text \<open>\<open>result.accuracy_scores?.overall_accuracy || result.overall_accuracy || 0\<close>\<close>

definition result_accuracy :: "estimate \<Rightarrow> real" where
  "result_accuracy result =
     num_or (case accuracy_scores result of None \<Rightarrow> None | Some sc \<Rightarrow> as_overall_accuracy sc)
       (num_or (overall_accuracy result) 0)"

text \<open>\<open>accuracy > 1 ? accuracy / 100 : accuracy\<close>, the quotient rounded.\<close>

definition accuracyNormalized :: "(real \<Rightarrow> jsnum) \<Rightarrow> real \<Rightarrow> jsnum" where
  "accuracyNormalized fl accuracy = (if accuracy > 1 then fl (accuracy / 100) else Num accuracy)"

definition accuracyDisplay :: "real \<Rightarrow> real" where
  "accuracyDisplay accuracy = (if accuracy > 1 then accuracy else accuracy * 100)"

text \<open>\<open>carbon + (1 - accuracyNormalized)\<close>: a difference and a sum of doubles.\<close>

definition score_of :: "(real \<Rightarrow> jsnum) \<Rightarrow> estimate \<Rightarrow> jsnum" where
  "score_of fl result =
     js_add fl (Num (result_carbon result))
       (js_sub fl (Num 1) (accuracyNormalized fl (result_accuracy result)))"

subsection \<open>The selection loop\<close>

text \<open>
  The local variables of the loop. \<open>bestScore\<close> starts at
  \<open>Number.POSITIVE_INFINITY\<close>. \<open>sent\<close> is not a variable of the source: it lists
  the requests that were dispatched, in order.
\<close>

record selection =
  bestModel :: string
  bestResult :: "estimate option"
  bestScore :: jsnum
  comparisonList :: "comparison list"
  sent :: "payload list"

text \<open>\<open>score < bestScore\<close>\<close>

definition below_best :: "jsnum \<Rightarrow> jsnum \<Rightarrow> bool" where
  "below_best score best = js_lt score best"

definition payload_for :: "jsstring \<Rightarrow> string \<Rightarrow> payload" where
  "payload_for prompt modelName =
     \<lparr>pl_prompt = prompt, pl_model_name = modelName, pl_evaluate_accuracy = True,
      pl_auto_select_model = True, pl_simulate = False\<rparr>"

definition try_model ::
  "(real \<Rightarrow> jsnum) \<Rightarrow> (payload \<Rightarrow> fetch_outcome) \<Rightarrow> jsstring \<Rightarrow> selection \<Rightarrow> string \<Rightarrow> selection" where
  "try_model fl api prompt st modelName =
     (let request = payload_for prompt modelName;
          st1 = st\<lparr>sent := sent st @ [request]\<rparr>
      in case api request of
           Threw \<Rightarrow> st1
         | NotOk \<Rightarrow> st1
         | Json result \<Rightarrow>
             (let carbon = result_carbon result;
                  accuracy = result_accuracy result;
                  score = score_of fl result;
                  st2 = st1\<lparr>comparisonList := comparisonList st1 @
                          [\<lparr>cmp_model = modelName, cmp_carbon = carbon,
                            cmp_accuracy = accuracyDisplay accuracy\<rparr>]\<rparr>
              in if below_best score (bestScore st2)
                 then st2\<lparr>bestScore := score, bestModel := modelName,
                          bestResult := Some result\<rparr>
                 else st2))"

definition selection_init :: "string \<Rightarrow> selection" where
  "selection_init first =
     \<lparr>bestModel = first, bestResult = None, bestScore = PosInf, comparisonList = [], sent = []\<rparr>"

definition run_selection ::
  "(real \<Rightarrow> jsnum) \<Rightarrow> (payload \<Rightarrow> fetch_outcome) \<Rightarrow> jsstring \<Rightarrow> string list \<Rightarrow> selection" where
  "run_selection fl api prompt filteredModels =
     foldl (try_model fl api prompt) (selection_init (filteredModels ! 0)) filteredModels"

subsection \<open>The handler\<close>

definition no_models_message :: string where
  "no_models_message = ''No supported text generation models are available.''"

definition no_results_message :: string where
  "no_results_message =
     ''No successful results from any model. Please check your API keys and ensure models are available.''"

definition image_message :: string where
  "image_message = ''Image generation will be available soon.''"

text \<open>\<open>bestResult.accuracy_scores || bestResult.overall_accuracy || {}\<close>\<close>

definition message_accuracy_of :: "estimate \<Rightarrow> message_accuracy" where
  "message_accuracy_of r =
     (case accuracy_scores r of
        Some sc \<Rightarrow> AccScores sc
      | None \<Rightarrow> (case overall_accuracy r of
                   None \<Rightarrow> AccEmpty
                 | Some a \<Rightarrow> if a \<noteq> 0 then AccNumber a else AccEmpty))"

definition make_message :: "env \<Rightarrow> jsstring \<Rightarrow> string \<Rightarrow> estimate \<Rightarrow> message" where
  "make_message e prompt best r =
     \<lparr>msg_id = now_message e, msg_type = ''estimate'', msg_prompt = prompt, msg_model = best,
      msg_carbon = num_or (carbon_emitted_kgco2 r) (num_or (carbon_emitted_grams r) 0),
      msg_energy = num_or (energy_consumed_kwh r) 0,
      msg_tokens = num_or (total_tokens r) 0,
      msg_accuracy = message_accuracy_of r,
      msg_response_text = str_or (response_text r) [],
      msg_timestamp = locale_time e\<rparr>"

text \<open>\<open>if (!chatId)\<close>: no active chat, or the id \<open>0\<close>.\<close>

definition no_chat :: "nat option \<Rightarrow> bool" where
  "no_chat c = (case c of None \<Rightarrow> True | Some i \<Rightarrow> i = 0)"

text \<open>
  The part of the handler after a winner was found: the comparison is shown, a chat is
  opened when none is active, the message is appended to the active chat, the winner is
  appended to the history for the dashboard and the input is cleared.
\<close>

definition record_winner :: "env \<Rightarrow> app_state \<Rightarrow> selection \<Rightarrow> estimate \<Rightarrow> app_state" where
  "record_winner e s sel r =
     (let s1 = s\<lparr>comparisonResults := Some (comparisonList sel), showComparison := True\<rparr>;
          s2 = (if no_chat (activeChatId s)
                then s1\<lparr>chats := chats s @
                           [\<lparr>chat_id = now_chat e, chat_title = take 30 (input s) @ ascii ''...'',
                             chat_messages = []\<rparr>],
                        activeChatId := Some (now_chat e)\<rparr>
                else s1);
          chatId = (if no_chat (activeChatId s) then now_chat e else the (activeChatId s));
          message = make_message e (input s) (bestModel sel) r;
          s3 = s2\<lparr>chats := map (\<lambda>c. if chat_id c = chatId
                                     then c\<lparr>chat_messages := chat_messages c @ [message]\<rparr>
                                     else c) (chats s2)\<rparr>;
          s4 = s3\<lparr>allEstimates := allEstimates s3 @ [r]\<rparr>
      in s4\<lparr>input := []\<rparr>)"

text \<open>
  The handler returns the requests it dispatched and the state it leaves. Every
  exception of the loop body is caught there (\<open>Threw\<close>); nothing else in the body of
  the outer \<open>try\<close> throws, so its \<open>catch\<close> has no branch, and \<open>finally\<close> sets
  \<open>loading\<close> to false on the way out.
\<close>

definition handleSingleEstimate :: "env \<Rightarrow> app_state \<Rightarrow> payload list \<times> app_state" where
  "handleSingleEstimate e s =
     (if trim (input s) = [] then ([], s)
      else
        let s1 = s\<lparr>loading := True, error := []\<rparr>;
            promptType = detectPromptType (input s)
        in if promptType = ''image''
           then ([], s1\<lparr>error := image_message, loading := False\<rparr>)
           else
             let filteredModels = availableModels s
             in if length filteredModels = 0
                then ([], s1\<lparr>error := no_models_message, loading := False\<rparr>)
                else
                  let sel = run_selection (rounding e) (estimate_api e) (input s) filteredModels
                  in case bestResult sel of
                       None \<Rightarrow> (sent sel, s1\<lparr>error := no_results_message, loading := False\<rparr>)
                     | Some r \<Rightarrow> (sent sel, (record_winner e s1 sel r)\<lparr>loading := False\<rparr>))"

section \<open>Notions used to state the properties\<close>

text \<open>What one history entry adds to the totals, and whether its accuracy is counted.\<close>

definition carbon_of :: "estimate \<Rightarrow> real" where
  "carbon_of e = num_or (carbon_emitted_kgco2 e) 0"

definition energy_of :: "estimate \<Rightarrow> real" where
  "energy_of e = num_or (energy_consumed_kwh e) 0"

definition counted :: "estimate \<Rightarrow> bool" where
  "counted e = accuracy_ok (entry_accuracy e)"

definition entries_of :: "string \<Rightarrow> estimate list \<Rightarrow> estimate list" where
  "entries_of k estimates = filter (\<lambda>e. modelName_of e = k) estimates"

definition provider_summary :: "estimate list \<Rightarrow> model_data" where
  "provider_summary es =
     \<lparr>mb_count = length es,
      mb_totalCarbon = sum_list (map carbon_of es),
      mb_totalEnergy = sum_list (map energy_of es),
      mb_totalAccuracy = sum_list (map (\<lambda>e. the (entry_accuracy e)) (filter counted es)),
      mb_accuracyCount = length (filter counted es)\<rparr>"

text \<open>
  The average accuracy in the words of the specification: the mean over the entries
  whose accuracy is there and lies between 0 and 100, and 0 when there is none.
\<close>

definition spec_valid_accuracy :: "estimate \<Rightarrow> bool" where
  "spec_valid_accuracy e =
     (case entry_accuracy e of None \<Rightarrow> False | Some a \<Rightarrow> 0 \<le> a \<and> a \<le> 100)"

definition spec_average_accuracy :: "estimate list \<Rightarrow> real" where
  "spec_average_accuracy es =
     (let valid = filter spec_valid_accuracy es
      in if valid = [] then 0
         else sum_list (map (\<lambda>e. the (entry_accuracy e)) valid) / real (length valid))"

text \<open>
  The score in the words of the specification: the carbon in kilograms (a value given
  in grams is converted) plus one minus a hundredth of the accuracy on the scale of 0
  to 100.
\<close>

definition spec_carbon_kg :: "estimate \<Rightarrow> real" where
  "spec_carbon_kg r =
     (case carbon_emitted_kgco2 r of
        Some kg \<Rightarrow> kg
      | None \<Rightarrow> (case carbon_emitted_grams r of None \<Rightarrow> 0 | Some g \<Rightarrow> g / 1000))"

definition spec_score :: "estimate \<Rightarrow> real" where
  "spec_score r = spec_carbon_kg r + (1 - accuracyDisplay (result_accuracy r) / 100)"

text \<open>A score that the loop can select: one below the initial \<open>bestScore\<close>.\<close>

definition selectable :: "jsnum \<Rightarrow> bool" where
  "selectable score = js_lt score PosInf"

text \<open>
  The model at position \<open>j\<close> of the list answered with \<open>w\<close>, whose score can be
  selected; no answer of the round has a score below that of \<open>w\<close>, and no answer
  before position \<open>j\<close> has the score of \<open>w\<close>.
\<close>

definition first_best ::
  "(real \<Rightarrow> jsnum) \<Rightarrow> (payload \<Rightarrow> fetch_outcome) \<Rightarrow> jsstring \<Rightarrow> string list \<Rightarrow> nat \<Rightarrow> estimate \<Rightarrow> bool" where
  "first_best fl api prompt ms j w \<longleftrightarrow>
     j < length ms \<and> api (payload_for prompt (ms ! j)) = Json w \<and>
     selectable (score_of fl w) \<and>
     (\<forall>i<j. \<forall>r. api (payload_for prompt (ms ! i)) = Json r \<longrightarrow> score_of fl r \<noteq> score_of fl w) \<and>
     (\<forall>i<length ms. \<forall>r. api (payload_for prompt (ms ! i)) = Json r \<longrightarrow>
        \<not> js_lt (score_of fl r) (score_of fl w))"

definition selection_inv ::
  "(real \<Rightarrow> jsnum) \<Rightarrow> (payload \<Rightarrow> fetch_outcome) \<Rightarrow> jsstring \<Rightarrow> string list \<Rightarrow> selection \<Rightarrow> bool" where
  "selection_inv fl api prompt ms sel \<longleftrightarrow>
     (case bestResult sel of
        None \<Rightarrow> bestScore sel = PosInf \<and>
                (\<forall>i<length ms. \<forall>r. api (payload_for prompt (ms ! i)) = Json r \<longrightarrow>
                   \<not> selectable (score_of fl r))
      | Some w \<Rightarrow> bestScore sel = score_of fl w \<and>
                  (\<exists>j. first_best fl api prompt ms j w \<and> bestModel sel = ms ! j))"

section \<open>Sample inputs\<close>

definition sample_result :: "string \<Rightarrow> real \<Rightarrow> real \<Rightarrow> estimate" where
  "sample_result name carbon accuracy =
     \<lparr>model_name = Some name, model = None, carbon_emitted_kgco2 = Some carbon,
      carbon_emitted_grams = None, energy_consumed_kwh = None, total_tokens = None,
      overall_accuracy = Some accuracy, accuracy_scores = None, response_text = None\<rparr>"

definition sample_history :: "estimate list" where
  "sample_history =
     [sample_result ''a'' 1 50, sample_result ''b'' 2 0, sample_result ''b'' 2 80,
      sample_result ''b'' 2 150, (sample_result ''a'' 3 0)\<lparr>overall_accuracy := None\<rparr>]"

text \<open>Two requests of one model, the first scored 0 (as after a failed scoring), the
  second scored 100.\<close>

definition zero_history :: "estimate list" where
  "zero_history = [sample_result ''a'' 1 0, sample_result ''a'' 1 100]"

definition initial_state :: app_state where
  "initial_state =
     \<lparr>input = [], selectedModels = [''gemini-2.0-flash''], chats = [], activeChatId = None,
      theme = ''light'', loading = False,
      availableModels = [''gemini-2.0-flash'', ''mistral-7b-openrouter'', ''nvidia-qwen-coder''],
      showComparison = False, comparisonResults = None, allEstimates = [],
      selectedMode = ''single'', error = []\<rparr>"

definition sample_api :: "payload \<Rightarrow> fetch_outcome" where
  "sample_api request =
     (if pl_model_name request = ''gemini-2.0-flash''
      then Json (sample_result ''gemini-2.0-flash'' (67 / 1000000) 77)
      else if pl_model_name request = ''mistral-7b-openrouter''
      then Json (sample_result ''mistral-7b-openrouter'' (62 / 1000000) 76)
      else if pl_model_name request = ''nvidia-qwen-coder''
      then Json (sample_result ''nvidia-qwen-coder'' (67 / 1000000) 72)
      else NotOk)"

text \<open>A sample world; its arithmetic is exact.\<close>

definition sample_env :: "(payload \<Rightarrow> fetch_outcome) \<Rightarrow> env" where
  "sample_env api = \<lparr>estimate_api = api, rounding = Num, now_chat = 1001, now_message = 1002,
      locale_time = ''10:15:00 AM''\<rparr>"

definition prompt_state :: app_state where
  "prompt_state = initial_state\<lparr>input := ascii ''Write bubble sort''\<rparr>"

text \<open>A prompt of a no-break space, a space, an ideographic space, a tab and a byte
  order mark.\<close>

definition blank_state :: app_state where
  "blank_state = initial_state\<lparr>input := [0xA0, 0x20, 0x3000, 0x09, 0xFEFF]\<rparr>"

definition failing_api :: "payload \<Rightarrow> fetch_outcome" where
  "failing_api request = (if pl_model_name request = ''gemini-2.0-flash'' then Threw else NotOk)"

definition tie_api :: "payload \<Rightarrow> fetch_outcome" where
  "tie_api request =
     (if pl_model_name request = ''gemini-2.0-flash''
      then Json (sample_result ''gemini-2.0-flash'' (1 / 4) 75)
      else if pl_model_name request = ''mistral-7b-openrouter''
      then Json (sample_result ''mistral-7b-openrouter'' (1 / 2) 100)
      else if pl_model_name request = ''nvidia-qwen-coder''
      then Json (sample_result ''nvidia-qwen-coder'' 0 25)
      else NotOk)"

definition tie_api_again :: "payload \<Rightarrow> fetch_outcome" where
  "tie_api_again request =
     (if pl_model_name request = ''nvidia-qwen-coder''
      then Json (sample_result ''nvidia-qwen-coder'' 0 25)
      else if pl_model_name request = ''mistral-7b-openrouter''
      then Json (sample_result ''mistral-7b-openrouter'' (1 / 2) 100)
      else if pl_model_name request = ''gemini-2.0-flash''
      then Json (sample_result ''gemini-2.0-flash'' (1 / 4) 75)
      else Threw)"

text \<open>An answer that gives its carbon in grams only: 4 g, that is 0.004 kg.\<close>

definition grams_result :: estimate where
  "grams_result =
     \<lparr>model_name = Some ''gemini-2.0-flash'', model = None, carbon_emitted_kgco2 = None,
      carbon_emitted_grams = Some 4, energy_consumed_kwh = None, total_tokens = None,
      overall_accuracy = Some 50, accuracy_scores = None, response_text = None\<rparr>"

definition grams_api :: "payload \<Rightarrow> fetch_outcome" where
  "grams_api request =
     (if pl_model_name request = ''gemini-2.0-flash'' then Json grams_result
      else if pl_model_name request = ''mistral-7b-openrouter''
      then Json (sample_result ''mistral-7b-openrouter'' 1 50)
      else NotOk)"

section \<open>The dashboard statistics\<close>

subsection \<open>Sums, the per-model breakdown and the listing\<close>

lemma foldl_add_sum_list:
  "foldl (\<lambda>sum e. sum + f e) (a::real) xs = a + sum_list (map f xs)"
  by (induction xs arbitrary: a) simp_all

lemma validAccuracies_filter:
  "validAccuracies es = map (\<lambda>e. the (entry_accuracy e)) (filter counted es)"
  by (induction es)
     (auto simp: validAccuracies_def counted_def accuracy_ok_def Let_def
           split: option.splits)

lemma provider_summary_Nil: "provider_summary [] = new_model_data"
  by (simp add: provider_summary_def new_model_data_def)

lemma provider_summary_snoc:
  "provider_summary (es @ [e]) = bump_model_data e (provider_summary es)"
  by (simp add: provider_summary_def bump_model_data_def Let_def counted_def carbon_of_def
        energy_of_def)

lemma distinct_breakdown_step:
  "distinct (map fst mb) \<Longrightarrow> distinct (map fst (breakdown_step mb e))"
  by (simp add: breakdown_step_def Let_def AList.distinct_map_entry AList.distinct_update)

lemma distinct_modelBreakdown: "distinct (map fst (foldl breakdown_step [] es))"
  by (induction es rule: rev_induct) (simp_all add: distinct_breakdown_step)

lemma map_of_breakdown_step:
  "map_of (breakdown_step mb e) =
     (map_of mb)(modelName_of e \<mapsto>
        bump_model_data e (case map_of mb (modelName_of e) of
                             None \<Rightarrow> new_model_data | Some d \<Rightarrow> d))"
  by (auto simp: breakdown_step_def Let_def AList.map_of_map_entry AList.update_conv' fun_eq_iff
           split: option.splits)

lemma map_of_modelBreakdown:
  "map_of (foldl breakdown_step [] es) k =
     (if entries_of k es = [] then None else Some (provider_summary (entries_of k es)))"
proof (induction es rule: rev_induct)
  case Nil
  show ?case by (simp add: entries_of_def)
next
  case (snoc e es)
  show ?case
  proof (cases "modelName_of e = k")
    case True
    then show ?thesis
      using snoc
      by (simp add: map_of_breakdown_step entries_of_def provider_summary_snoc
            provider_summary_Nil)
  next
    case False
    then show ?thesis
      using snoc by (simp add: map_of_breakdown_step entries_of_def)
  qed
qed

lemma Dashboard_stats_calculateStats: "Dashboard_stats es = calculateStats es"
  by (cases es)
     (simp_all add: Dashboard_stats_def initial_stats_def calculateStats_def validAccuracies_def
        sort_by_count_desc_def)

lemma js_div_pos: "0 < n \<Longrightarrow> js_div x (real n) = Num (x / real n)"
  by (simp add: js_div_def)

lemma averageAccuracy_calculateStats:
  "averageAccuracy (calculateStats es) =
     (if filter counted es = [] then Num 0
      else Num (sum_list (map (\<lambda>e. the (entry_accuracy e)) (filter counted es))
                / real (length (filter counted es))))"
  by (simp add: calculateStats_def Let_def validAccuracies_filter foldl_add_sum_list js_div_pos)

lemma counted_iff:
  "counted e \<longleftrightarrow> (\<exists>a. entry_accuracy e = Some a \<and> a \<noteq> 0 \<and> 0 \<le> a \<and> a \<le> 100)"
  by (auto simp: counted_def accuracy_ok_def split: option.splits)

lemma modelBreakdown_calculateStats:
  "modelBreakdown (calculateStats es) = foldl breakdown_step [] es"
  by (simp add: calculateStats_def Let_def)

lemma topModels_calculateStats:
  "topModels (calculateStats es) =
     sort_by_count_desc (map top_model_of (foldl breakdown_step [] es))"
  by (simp add: calculateStats_def Let_def)

lemma breakdown_entry:
  assumes "map_of (modelBreakdown (calculateStats es)) k = Some d"
  shows "entries_of k es \<noteq> [] \<and> d = provider_summary (entries_of k es)"
  using assms by (simp add: modelBreakdown_calculateStats map_of_modelBreakdown split: if_splits)

lemma breakdown_member:
  assumes "(k, d) \<in> set (modelBreakdown (calculateStats es))"
  shows "map_of (modelBreakdown (calculateStats es)) k = Some d"
  using assms distinct_modelBreakdown [of es]
  by (simp add: modelBreakdown_calculateStats)

lemma sorted_by_count_desc:
  "sorted_wrt (\<lambda>a b. tm_count b \<le> tm_count a) (sort_by_count_desc ms)"
proof -
  have "sorted (map (\<lambda>m. - int (tm_count m)) (sort_by_count_desc ms))"
    by (simp add: sort_by_count_desc_def)
  then show ?thesis
    by (simp add: sorted_wrt_map)
qed

lemma set_topModels:
  "set (topModels (calculateStats es)) = top_model_of ` set (modelBreakdown (calculateStats es))"
  by (simp add: topModels_calculateStats modelBreakdown_calculateStats sort_by_count_desc_def)

lemma top_model_entry:
  assumes "m \<in> set (topModels (calculateStats es))"
  shows "\<exists>d. map_of (modelBreakdown (calculateStats es)) (tm_name m) = Some d \<and>
             m = top_model_of (tm_name m, d)"
proof -
  from assms obtain k d where kd: "(k, d) \<in> set (modelBreakdown (calculateStats es))"
    and m: "m = top_model_of (k, d)"
    by (auto simp: set_topModels)
  from m have "tm_name m = k" by (simp add: top_model_of_def)
  with kd m show ?thesis by (auto dest: breakdown_member)
qed

lemma sum_list_map_mset_cong:
  "mset xs = mset ys \<Longrightarrow> sum_list (map f xs) = (sum_list (map f ys) :: real)"
  by (metis mset_map sum_mset_sum_list)

lemma provider_summary_mset_cong:
  assumes "mset xs = mset ys"
  shows "provider_summary xs = provider_summary ys"
proof -
  have f: "mset (filter counted xs) = mset (filter counted ys)"
    using assms by simp
  show ?thesis
    unfolding provider_summary_def
    using mset_eq_length [OF assms] mset_eq_length [OF f]
      sum_list_map_mset_cong [OF assms] sum_list_map_mset_cong [OF f]
    by simp
qed

lemma entries_of_mset_cong:
  "mset es = mset es' \<Longrightarrow> mset (entries_of k es) = mset (entries_of k es')"
  by (simp add: entries_of_def)

lemma map_of_modelBreakdown_mset_cong:
  assumes "mset es = mset es'"
  shows "map_of (foldl breakdown_step [] es) = map_of (foldl breakdown_step [] es')"
proof
  fix k
  have m: "mset (entries_of k es) = mset (entries_of k es')"
    using assms by (rule entries_of_mset_cong)
  then have "entries_of k es = [] \<longleftrightarrow> entries_of k es' = []"
    by (metis mset_zero_iff)
  with provider_summary_mset_cong [OF m]
  show "map_of (foldl breakdown_step [] es) k = map_of (foldl breakdown_step [] es') k"
    by (simp add: map_of_modelBreakdown)
qed

lemma mset_modelBreakdown_mset_cong:
  assumes "mset es = mset es'"
  shows "mset (foldl breakdown_step [] es) = mset (foldl breakdown_step [] es')"
proof -
  let ?a = "foldl breakdown_step [] es" and ?b = "foldl breakdown_step [] es'"
  have da: "distinct (map fst ?a)" and db: "distinct (map fst ?b)"
    by (rule distinct_modelBreakdown)+
  have "set ?a = set ?b"
    using map_of_modelBreakdown_mset_cong [OF assms] map_of_inject_set [OF da db] by simp
  moreover have "distinct ?a" "distinct ?b"
    using da db by (simp_all add: distinct_map)
  ultimately show ?thesis
    by (simp add: set_eq_iff_mset_eq_distinct)
qed

subsection \<open>The statistics of the sample histories\<close>

lemma sample_history_stats:
  "calculateStats sample_history =
     \<lparr>totalRequests = 5, totalCarbon = 10, averageAccuracy = Num 65, totalEnergy = 0,
      modelBreakdown =
        [(''a'', \<lparr>mb_count = 2, mb_totalCarbon = 4, mb_totalEnergy = 0,
                  mb_totalAccuracy = 50, mb_accuracyCount = 1\<rparr>),
         (''b'', \<lparr>mb_count = 3, mb_totalCarbon = 6, mb_totalEnergy = 0,
                  mb_totalAccuracy = 80, mb_accuracyCount = 1\<rparr>)],
      topModels =
        [\<lparr>tm_name = ''b'', tm_count = 3, tm_carbonPerRequest = Num 2, tm_accuracyAvg = Num 80\<rparr>,
         \<lparr>tm_name = ''a'', tm_count = 2, tm_carbonPerRequest = Num 2, tm_accuracyAvg = Num 50\<rparr>]\<rparr>"
  by (simp add: sample_history_def calculateStats_def validAccuracies_def sort_by_count_desc_def
      top_model_of_def breakdown_step_def bump_model_data_def new_model_data_def modelName_of_def
      sample_result_def entry_accuracy_def accuracy_ok_def js_div_def Let_def)

lemma sample_history_breakdown_b:
  "map_of (modelBreakdown (calculateStats sample_history)) ''b'' =
     Some \<lparr>mb_count = 3, mb_totalCarbon = 6, mb_totalEnergy = 0,
           mb_totalAccuracy = 80, mb_accuracyCount = 1\<rparr>"
  by (simp add: sample_history_stats)

lemma zero_history_stats:
  "calculateStats zero_history =
     \<lparr>totalRequests = 2, totalCarbon = 2, averageAccuracy = Num 100, totalEnergy = 0,
      modelBreakdown =
        [(''a'', \<lparr>mb_count = 2, mb_totalCarbon = 2, mb_totalEnergy = 0,
                  mb_totalAccuracy = 100, mb_accuracyCount = 1\<rparr>)],
      topModels =
        [\<lparr>tm_name = ''a'', tm_count = 2, tm_carbonPerRequest = Num 1, tm_accuracyAvg = Num 100\<rparr>]\<rparr>"
  by (simp add: zero_history_def calculateStats_def validAccuracies_def sort_by_count_desc_def
      top_model_of_def breakdown_step_def bump_model_data_def new_model_data_def modelName_of_def
      sample_result_def entry_accuracy_def accuracy_ok_def js_div_def Let_def)

lemma zero_history_spec_average: "spec_average_accuracy zero_history = 50"
  by (simp add: spec_average_accuracy_def spec_valid_accuracy_def zero_history_def
      entry_accuracy_def sample_result_def)

subsection \<open>Properties of the statistics\<close>

text \<open>
  Which entries the averages are taken over. The average accuracy of the whole history is
  the mean over the counted entries, and \<open>Num 0\<close> when there is none. An entry is counted
  exactly when its accuracy is present, not zero and within 0 and 100: an entry whose
  accuracy is missing or outside the range adds nothing to the sum and nothing to the
  divisor. The entry of a model in the breakdown follows the same rule over the requests
  of that model, so its \<open>accuracyCount\<close> is at most its \<open>count\<close>.
\<close>

lemma average_over_counted:
  "averageAccuracy (calculateStats es) =
     (if filter counted es = [] then Num 0
      else Num (sum_list (map (\<lambda>e. the (entry_accuracy e)) (filter counted es))
                / real (length (filter counted es)))) \<and>
   (counted e \<longleftrightarrow> (\<exists>a. entry_accuracy e = Some a \<and> a \<noteq> 0 \<and> 0 \<le> a \<and> a \<le> 100)) \<and>
   (map_of (modelBreakdown (calculateStats es)) k = Some d \<longrightarrow>
      mb_count d = length (entries_of k es) \<and>
      mb_accuracyCount d = length (filter counted (entries_of k es)) \<and>
      mb_totalAccuracy d =
        sum_list (map (\<lambda>e. the (entry_accuracy e)) (filter counted (entries_of k es))) \<and>
      mb_accuracyCount d \<le> mb_count d \<and>
      tm_accuracyAvg (top_model_of (k, d)) =
        (if filter counted (entries_of k es) = [] then Num 0
         else Num (mb_totalAccuracy d / real (mb_accuracyCount d))))"
proof (intro conjI impI)
  show "averageAccuracy (calculateStats es) =
     (if filter counted es = [] then Num 0
      else Num (sum_list (map (\<lambda>e. the (entry_accuracy e)) (filter counted es))
                / real (length (filter counted es))))"
    by (rule averageAccuracy_calculateStats)
  show "counted e \<longleftrightarrow> (\<exists>a. entry_accuracy e = Some a \<and> a \<noteq> 0 \<and> 0 \<le> a \<and> a \<le> 100)"
    by (rule counted_iff)
next
  assume "map_of (modelBreakdown (calculateStats es)) k = Some d"
  from breakdown_entry [OF this] have d: "d = provider_summary (entries_of k es)" by simp
  show "mb_count d = length (entries_of k es)"
    by (simp add: d provider_summary_def)
  show ac: "mb_accuracyCount d = length (filter counted (entries_of k es))"
    by (simp add: d provider_summary_def)
  show "mb_totalAccuracy d =
        sum_list (map (\<lambda>e. the (entry_accuracy e)) (filter counted (entries_of k es)))"
    by (simp add: d provider_summary_def)
  show "mb_accuracyCount d \<le> mb_count d"
    by (simp add: d provider_summary_def)
  show "tm_accuracyAvg (top_model_of (k, d)) =
        (if filter counted (entries_of k es) = [] then Num 0
         else Num (mb_totalAccuracy d / real (mb_accuracyCount d)))"
    using ac by (simp add: top_model_of_def js_div_pos)
qed

text \<open>
  Claim C6 does not hold of the code. The claim takes the average over the entries whose
  accuracy is a valid value between 0 and 100, and 0 is such a value (it is what a failed
  scoring leaves). The code tests \<open>accuracy && accuracy >= 0 && accuracy <= 100\<close>,
  under the comment that values in the range 0 to 100 are valid: the first conjunct is
  false for the number 0, so an entry scored 0 is left out of the sum and of the divisor.
  For a model scored 0 and then 100 the code shows an average of 100, globally and for the
  model, where the mean over the valid entries is 50.
\<close>

theorem zero_accuracy_left_out:
  "averageAccuracy (calculateStats zero_history) = Num 100 \<and>
   spec_average_accuracy zero_history = 50 \<and>
   map_of (modelBreakdown (calculateStats zero_history)) ''a'' =
     Some \<lparr>mb_count = 2, mb_totalCarbon = 2, mb_totalEnergy = 0,
           mb_totalAccuracy = 100, mb_accuracyCount = 1\<rparr> \<and>
   topModels (calculateStats zero_history) =
     [\<lparr>tm_name = ''a'', tm_count = 2, tm_carbonPerRequest = Num 1, tm_accuracyAvg = Num 100\<rparr>]"
  by (simp add: zero_history_stats zero_history_spec_average)

text \<open>
  Over exact arithmetic a permutation of the history leaves the number of requests, the
  totals and the average unchanged, gives every model the same entry in the breakdown and
  the same entries in \<open>topModels\<close>. The number of requests and the counts are the same
  in the arithmetic of the code as well. Its totals are sums of doubles, taken from left
  to right and rounded at every step: whether they are the same after a permutation is a
  matter of that rounding, which the sums of this model do not have.
\<close>

lemma exact_totals_permutation:
  assumes "mset es = mset es'"
  shows "totalRequests (calculateStats es) = totalRequests (calculateStats es') \<and>
         totalCarbon (calculateStats es) = totalCarbon (calculateStats es') \<and>
         totalEnergy (calculateStats es) = totalEnergy (calculateStats es') \<and>
         averageAccuracy (calculateStats es) = averageAccuracy (calculateStats es') \<and>
         map_of (modelBreakdown (calculateStats es)) = map_of (modelBreakdown (calculateStats es')) \<and>
         mset (topModels (calculateStats es)) = mset (topModels (calculateStats es'))"
proof -
  have f: "mset (filter counted es) = mset (filter counted es')"
    using assms by simp
  have 1: "totalRequests (calculateStats es) = totalRequests (calculateStats es')"
    using mset_eq_length [OF assms] by (simp add: calculateStats_def Let_def)
  have 2: "totalCarbon (calculateStats es) = totalCarbon (calculateStats es')"
    using sum_list_map_mset_cong [OF assms]
    by (simp add: calculateStats_def Let_def foldl_add_sum_list)
  have 3: "totalEnergy (calculateStats es) = totalEnergy (calculateStats es')"
    using sum_list_map_mset_cong [OF assms]
    by (simp add: calculateStats_def Let_def foldl_add_sum_list)
  have "filter counted es = [] \<longleftrightarrow> filter counted es' = []"
    using f by (metis mset_zero_iff)
  then have 4: "averageAccuracy (calculateStats es) = averageAccuracy (calculateStats es')"
    using mset_eq_length [OF f] sum_list_map_mset_cong [OF f]
    by (simp add: averageAccuracy_calculateStats)
  have 5: "map_of (modelBreakdown (calculateStats es)) = map_of (modelBreakdown (calculateStats es'))"
    using map_of_modelBreakdown_mset_cong [OF assms] by (simp add: modelBreakdown_calculateStats)
  have 6: "mset (topModels (calculateStats es)) = mset (topModels (calculateStats es'))"
    using mset_modelBreakdown_mset_cong [OF assms]
    by (simp add: topModels_calculateStats sort_by_count_desc_def)
  from 1 2 3 4 5 6 show ?thesis by blast
qed

text \<open>
  Claim C8. For the empty history the dashboard does not run \<open>calculateStats\<close> and
  shows its initial statistics: no requests, average accuracy 0, no model listed. Were
  \<open>calculateStats\<close> run on the empty history, the guard on the number of valid
  accuracies would give the same: the average is the finite number 0, not the \<open>NaN\<close> of
  a division of zero by zero.
\<close>

theorem empty_history_stats:
  "totalRequests (Dashboard_stats []) = 0 \<and> averageAccuracy (Dashboard_stats []) = Num 0 \<and>
   topModels (Dashboard_stats []) = [] \<and>
   totalRequests (calculateStats []) = 0 \<and> averageAccuracy (calculateStats []) = Num 0 \<and>
   topModels (calculateStats []) = []"
  by (simp add: Dashboard_stats_def initial_stats_def calculateStats_def validAccuracies_def
        sort_by_count_desc_def)

text \<open>
  Claim C9. The listing is in descending order of the request count. Every entry of it
  belongs to a model of the breakdown whose count is the number of its requests in the
  history, hence positive: the division for the carbon per request has a non-zero divisor
  and a finite result, and the mean accuracy divides only when the accuracy count is
  positive and is 0 otherwise.
\<close>

theorem top_models_sorted_guarded:
  "sorted_wrt (\<lambda>a b. tm_count b \<le> tm_count a) (topModels (Dashboard_stats es)) \<and>
   (\<forall>m\<in>set (topModels (Dashboard_stats es)).
      (\<exists>d. map_of (modelBreakdown (Dashboard_stats es)) (tm_name m) = Some d \<and>
           tm_count m = mb_count d \<and> 0 < mb_count d \<and>
           mb_count d = length (entries_of (tm_name m) es) \<and>
           tm_carbonPerRequest m = Num (mb_totalCarbon d / real (mb_count d)) \<and>
           tm_accuracyAvg m =
             (if 0 < mb_accuracyCount d
              then Num (mb_totalAccuracy d / real (mb_accuracyCount d)) else Num 0)))"
proof (intro conjI ballI)
  show "sorted_wrt (\<lambda>a b. tm_count b \<le> tm_count a) (topModels (Dashboard_stats es))"
    by (simp add: Dashboard_stats_calculateStats topModels_calculateStats sorted_by_count_desc)
next
  fix m assume "m \<in> set (topModels (Dashboard_stats es))"
  then have "m \<in> set (topModels (calculateStats es))"
    by (simp add: Dashboard_stats_calculateStats)
  then obtain d where d: "map_of (modelBreakdown (calculateStats es)) (tm_name m) = Some d"
    and m: "m = top_model_of (tm_name m, d)"
    using top_model_entry by blast
  from breakdown_entry [OF d] have ne: "entries_of (tm_name m) es \<noteq> []"
    and sm: "d = provider_summary (entries_of (tm_name m) es)" by simp_all
  have cnt: "mb_count d = length (entries_of (tm_name m) es)"
    by (simp add: sm provider_summary_def)
  with ne have pos: "0 < mb_count d" by simp
  have c: "tm_count m = mb_count d"
    by (subst m) (simp add: top_model_of_def)
  have cpr: "tm_carbonPerRequest m = Num (mb_totalCarbon d / real (mb_count d))"
    by (subst m) (simp add: top_model_of_def js_div_pos pos)
  have avg: "tm_accuracyAvg m =
      (if 0 < mb_accuracyCount d
       then Num (mb_totalAccuracy d / real (mb_accuracyCount d)) else Num 0)"
    by (subst m) (simp add: top_model_of_def js_div_pos)
  show "\<exists>d. map_of (modelBreakdown (Dashboard_stats es)) (tm_name m) = Some d \<and>
           tm_count m = mb_count d \<and> 0 < mb_count d \<and>
           mb_count d = length (entries_of (tm_name m) es) \<and>
           tm_carbonPerRequest m = Num (mb_totalCarbon d / real (mb_count d)) \<and>
           tm_accuracyAvg m =
             (if 0 < mb_accuracyCount d
              then Num (mb_totalAccuracy d / real (mb_accuracyCount d)) else Num 0)"
    using d c pos cnt cpr avg by (simp add: Dashboard_stats_calculateStats)
qed

theorem top_models_sorted_guarded_witness:
  "\<lparr>tm_name = ''b'', tm_count = 3, tm_carbonPerRequest = Num 2, tm_accuracyAvg = Num 80\<rparr>
     \<in> set (topModels (Dashboard_stats sample_history)) \<and>
   map_of (modelBreakdown (Dashboard_stats sample_history)) ''b'' =
     Some \<lparr>mb_count = 3, mb_totalCarbon = 6, mb_totalEnergy = 0,
           mb_totalAccuracy = 80, mb_accuracyCount = 1\<rparr> \<and>
   length (entries_of ''b'' sample_history) = 3 \<and>
   sorted_wrt (\<lambda>a b. tm_count b \<le> tm_count a) (topModels (Dashboard_stats sample_history))"
proof -
  let ?m = "\<lparr>tm_name = ''b'', tm_count = 3, tm_carbonPerRequest = Num 2, tm_accuracyAvg = Num 80\<rparr>"
  have mem: "?m \<in> set (topModels (Dashboard_stats sample_history))"
    by (simp add: Dashboard_stats_calculateStats sample_history_stats)
  from top_models_sorted_guarded [of sample_history] mem
  obtain d where "map_of (modelBreakdown (Dashboard_stats sample_history)) (tm_name ?m) = Some d"
    and "mb_count d = length (entries_of (tm_name ?m) sample_history)"
    and "sorted_wrt (\<lambda>a b. tm_count b \<le> tm_count a) (topModels (Dashboard_stats sample_history))"
    by blast
  with mem show ?thesis
    by (auto simp: Dashboard_stats_calculateStats sample_history_stats)
qed

section \<open>The accuracy scale\<close>

text \<open>
  Claim C2, as stated, fails: the code does not clamp. A value above 100 is passed
  through as it is.
\<close>

theorem normalize_out_of_range:
  "\<not> (0 \<le> accuracyDisplay 150 \<and> accuracyDisplay 150 \<le> 100)"
  by (simp add: accuracyDisplay_def)

text \<open>
  Claim C2, amended. An accuracy between 0 and 100 is mapped into the range 0 to 100;
  75 and 0.75 are both mapped to 75; \<open>formatPercentage\<close> in the dashboard applies the
  same rule before it formats the number.
\<close>

theorem normalize_in_range:
  "(0 \<le> a \<and> a \<le> 100 \<longrightarrow> 0 \<le> accuracyDisplay a \<and> accuracyDisplay a \<le> 100) \<and>
   accuracyDisplay 75 = 75 \<and> accuracyDisplay 0.75 = 75 \<and>
   formatPercentage_value a = accuracyDisplay a"
  by (simp add: accuracyDisplay_def formatPercentage_value_def)

theorem normalize_in_range_witness:
  "(0::real) \<le> 1 / 2 \<and> (1 / 2 ::real) \<le> 100 \<and>
   0 \<le> accuracyDisplay (1 / 2) \<and> accuracyDisplay (1 / 2) \<le> 100 \<and>
   formatPercentage_value (1 / 2) = accuracyDisplay (1 / 2)"
  using normalize_in_range [of "1 / 2"] by simp

section \<open>The selection of the best model\<close>

subsection \<open>The order of the scores\<close>

lemma js_lt_irrefl: "\<not> js_lt a a"
  by (cases a) simp_all

lemma js_lt_trans: "js_lt a b \<Longrightarrow> js_lt b c \<Longrightarrow> js_lt a c"
  by (cases a; cases b; cases c) simp_all

lemma js_lt_selectable: "js_lt a b \<Longrightarrow> selectable a"
  by (cases a; cases b) (simp_all add: selectable_def)

lemma not_selectable_not_below: "\<not> selectable a \<Longrightarrow> \<not> js_lt a b"
  using js_lt_selectable by blast

subsection \<open>The loop invariant\<close>

lemma try_model_failed:
  assumes "\<forall>r. api (payload_for prompt m) \<noteq> Json r"
  shows "try_model fl api prompt st m = st\<lparr>sent := sent st @ [payload_for prompt m]\<rparr>"
  using assms by (cases "api (payload_for prompt m)") (simp_all add: try_model_def Let_def)

lemma try_model_better:
  assumes "api (payload_for prompt m) = Json r" and "below_best (score_of fl r) (bestScore st)"
  shows "bestResult (try_model fl api prompt st m) = Some r"
    and "bestScore (try_model fl api prompt st m) = score_of fl r"
    and "bestModel (try_model fl api prompt st m) = m"
  using assms by (simp_all add: try_model_def Let_def)

lemma try_model_not_better:
  assumes "api (payload_for prompt m) = Json r" and "\<not> below_best (score_of fl r) (bestScore st)"
  shows "bestResult (try_model fl api prompt st m) = bestResult st"
    and "bestScore (try_model fl api prompt st m) = bestScore st"
    and "bestModel (try_model fl api prompt st m) = bestModel st"
  using assms by (simp_all add: try_model_def Let_def)

lemma first_best_extend_failed:
  assumes "first_best fl api prompt ms j w" and "\<forall>r. api (payload_for prompt m) \<noteq> Json r"
  shows "first_best fl api prompt (ms @ [m]) j w"
  using assms unfolding first_best_def
  by (auto simp: nth_append less_Suc_eq)

lemma first_best_extend_keep:
  assumes "first_best fl api prompt ms j w" and "api (payload_for prompt m) = Json r"
    and "\<not> js_lt (score_of fl r) (score_of fl w)"
  shows "first_best fl api prompt (ms @ [m]) j w"
  using assms unfolding first_best_def
  by (auto simp: nth_append less_Suc_eq)

lemma first_best_extend_new:
  assumes fb: "first_best fl api prompt ms j w" and ans: "api (payload_for prompt m) = Json r"
    and lt: "js_lt (score_of fl r) (score_of fl w)"
  shows "first_best fl api prompt (ms @ [m]) (length ms) r"
proof -
  from fb have nb: "\<forall>i<length ms. \<forall>r'. api (payload_for prompt (ms ! i)) = Json r' \<longrightarrow>
      \<not> js_lt (score_of fl r') (score_of fl w)"
    by (simp add: first_best_def)
  have before: "\<forall>i<length ms. \<forall>r'. api (payload_for prompt (ms ! i)) = Json r' \<longrightarrow>
      score_of fl r' \<noteq> score_of fl r \<and> \<not> js_lt (score_of fl r') (score_of fl r)"
  proof (intro allI impI)
    fix i r' assume i: "i < length ms" and a: "api (payload_for prompt (ms ! i)) = Json r'"
    with nb have n: "\<not> js_lt (score_of fl r') (score_of fl w)" by blast
    show "score_of fl r' \<noteq> score_of fl r \<and> \<not> js_lt (score_of fl r') (score_of fl r)"
      using n lt js_lt_trans by metis
  qed
  show ?thesis
    unfolding first_best_def
    using before ans js_lt_selectable [OF lt] js_lt_irrefl
    by (auto simp: nth_append less_Suc_eq)
qed

lemma first_best_first_answer:
  assumes none: "\<forall>i<length ms. \<forall>r. api (payload_for prompt (ms ! i)) = Json r \<longrightarrow>
      \<not> selectable (score_of fl r)"
    and ans: "api (payload_for prompt m) = Json r"
    and sel: "selectable (score_of fl r)"
  shows "first_best fl api prompt (ms @ [m]) (length ms) r"
proof -
  have before: "\<forall>i<length ms. \<forall>r'. api (payload_for prompt (ms ! i)) = Json r' \<longrightarrow>
      score_of fl r' \<noteq> score_of fl r \<and> \<not> js_lt (score_of fl r') (score_of fl r)"
  proof (intro allI impI)
    fix i r' assume "i < length ms" and "api (payload_for prompt (ms ! i)) = Json r'"
    with none have n: "\<not> selectable (score_of fl r')" by blast
    with sel have "score_of fl r' \<noteq> score_of fl r" by auto
    with n show "score_of fl r' \<noteq> score_of fl r \<and> \<not> js_lt (score_of fl r') (score_of fl r)"
      by (simp add: not_selectable_not_below)
  qed
  show ?thesis
    unfolding first_best_def
    using before ans sel js_lt_irrefl
    by (auto simp: nth_append less_Suc_eq)
qed

lemma selection_inv_step_failed:
  assumes inv: "selection_inv fl api prompt ms st"
    and f: "\<forall>r. api (payload_for prompt m) \<noteq> Json r"
  shows "selection_inv fl api prompt (ms @ [m]) (try_model fl api prompt st m)"
proof (cases "bestResult st")
  case None
  with inv have bs: "bestScore st = PosInf"
    and nf: "\<forall>i<length ms. \<forall>r. api (payload_for prompt (ms ! i)) = Json r \<longrightarrow>
               \<not> selectable (score_of fl r)"
    by (simp_all add: selection_inv_def)
  from nf f have "\<forall>i<length (ms @ [m]). \<forall>r.
      api (payload_for prompt ((ms @ [m]) ! i)) = Json r \<longrightarrow> \<not> selectable (score_of fl r)"
    by (auto simp: nth_append less_Suc_eq)
  with None bs show ?thesis
    by (simp add: selection_inv_def try_model_failed [where api=api, OF f])
next
  case (Some w)
  with inv obtain j where bs: "bestScore st = score_of fl w"
    and fb: "first_best fl api prompt ms j w" and bm: "bestModel st = ms ! j"
    by (auto simp: selection_inv_def)
  from fb have jl: "j < length ms" by (simp add: first_best_def)
  have fb': "first_best fl api prompt (ms @ [m]) j w"
    using fb f by (rule first_best_extend_failed)
  have bm': "bestModel st = (ms @ [m]) ! j"
    using bm jl by (simp add: nth_append)
  from Some bs fb' bm' show ?thesis
    unfolding selection_inv_def try_model_failed [where api=api, OF f]
    by auto
qed

lemma selection_inv_step:
  assumes inv: "selection_inv fl api prompt ms st"
  shows "selection_inv fl api prompt (ms @ [m]) (try_model fl api prompt st m)"
proof (cases "api (payload_for prompt m)")
  case Threw
  then have "\<forall>r. api (payload_for prompt m) \<noteq> Json r" by simp
  with inv show ?thesis by (rule selection_inv_step_failed)
next
  case NotOk
  then have "\<forall>r. api (payload_for prompt m) \<noteq> Json r" by simp
  with inv show ?thesis by (rule selection_inv_step_failed)
next
  case (Json r)
  show ?thesis
  proof (cases "bestResult st")
    case None
    with inv have bs: "bestScore st = PosInf"
      and nf: "\<forall>i<length ms. \<forall>r. api (payload_for prompt (ms ! i)) = Json r \<longrightarrow>
                 \<not> selectable (score_of fl r)"
      by (simp_all add: selection_inv_def)
    show ?thesis
    proof (cases "selectable (score_of fl r)")
      case True
      then have bb: "below_best (score_of fl r) (bestScore st)"
        by (simp add: bs below_best_def selectable_def)
      have "first_best fl api prompt (ms @ [m]) (length ms) r"
        using nf Json True by (rule first_best_first_answer)
      moreover have "m = (ms @ [m]) ! length ms" by simp
      ultimately show ?thesis
        unfolding selection_inv_def try_model_better [where api=api, OF Json bb]
        by auto
    next
      case False
      then have nb: "\<not> below_best (score_of fl r) (bestScore st)"
        by (simp add: bs below_best_def selectable_def)
      from nf Json False have "\<forall>i<length (ms @ [m]). \<forall>r.
          api (payload_for prompt ((ms @ [m]) ! i)) = Json r \<longrightarrow> \<not> selectable (score_of fl r)"
        by (auto simp: nth_append less_Suc_eq)
      with None bs show ?thesis
        unfolding selection_inv_def try_model_not_better [where api=api, OF Json nb]
        by simp
    qed
  next
    case (Some w)
    with inv obtain j where bs: "bestScore st = score_of fl w"
      and fb: "first_best fl api prompt ms j w" and bm: "bestModel st = ms ! j"
      by (auto simp: selection_inv_def)
    from fb have jl: "j < length ms" by (simp add: first_best_def)
    show ?thesis
    proof (cases "js_lt (score_of fl r) (score_of fl w)")
      case True
      then have bb: "below_best (score_of fl r) (bestScore st)" by (simp add: bs below_best_def)
      have "first_best fl api prompt (ms @ [m]) (length ms) r"
        using fb Json True by (rule first_best_extend_new)
      moreover have "m = (ms @ [m]) ! length ms" by simp
      ultimately show ?thesis
        unfolding selection_inv_def try_model_better [where api=api, OF Json bb]
        by auto
    next
      case False
      then have nb: "\<not> below_best (score_of fl r) (bestScore st)" by (simp add: bs below_best_def)
      have "first_best fl api prompt (ms @ [m]) j w"
        using fb Json False by (rule first_best_extend_keep)
      moreover have "bestModel st = (ms @ [m]) ! j"
        using bm jl by (simp add: nth_append)
      ultimately show ?thesis
        unfolding selection_inv_def try_model_not_better [where api=api, OF Json nb]
        using Some bs by auto
    qed
  qed
qed

lemma selection_inv_foldl:
  "selection_inv fl api prompt ms (foldl (try_model fl api prompt) (selection_init b) ms)"
proof (induction ms rule: rev_induct)
  case Nil
  show ?case by (simp add: selection_inv_def selection_init_def)
next
  case (snoc m ms)
  then show ?case by (simp add: selection_inv_step)
qed

lemma sent_try_model:
  "sent (try_model fl api prompt st m) = sent st @ [payload_for prompt m]"
  by (cases "api (payload_for prompt m)") (simp_all add: try_model_def Let_def)

lemma sent_foldl:
  "sent (foldl (try_model fl api prompt) (selection_init b) ms) = map (payload_for prompt) ms"
  by (induction ms rule: rev_induct) (simp_all add: sent_try_model selection_init_def)

lemma run_selection_some:
  assumes "bestResult (run_selection fl api prompt ms) = Some w"
  shows "\<exists>j. first_best fl api prompt ms j w \<and> bestModel (run_selection fl api prompt ms) = ms ! j"
  using assms selection_inv_foldl [of fl api prompt ms "ms ! 0"]
  by (simp add: run_selection_def selection_inv_def)

lemma run_selection_none:
  assumes "bestResult (run_selection fl api prompt ms) = None"
    and "m \<in> set ms" and "api (payload_for prompt m) = Json r"
  shows "\<not> selectable (score_of fl r)"
proof -
  from assms(1) selection_inv_foldl [of fl api prompt ms "ms ! 0"]
  have "\<forall>i<length ms. \<forall>r. api (payload_for prompt (ms ! i)) = Json r \<longrightarrow>
          \<not> selectable (score_of fl r)"
    by (simp add: run_selection_def selection_inv_def)
  with assms(2,3) show ?thesis
    by (metis in_set_conv_nth)
qed

lemma run_selection_all_failed:
  assumes "\<forall>m\<in>set ms. \<forall>r. api (payload_for prompt m) \<noteq> Json r"
  shows "bestResult (run_selection fl api prompt ms) = None"
proof (cases "bestResult (run_selection fl api prompt ms)")
  case None then show ?thesis .
next
  case (Some w)
  from run_selection_some [OF Some] obtain j where "first_best fl api prompt ms j w"
    by blast
  then have "j < length ms" "api (payload_for prompt (ms ! j)) = Json w"
    by (simp_all add: first_best_def)
  with assms show ?thesis by (metis nth_mem)
qed

text \<open>
  What the loop guarantees in general: when it selects \<open>w\<close>, no answer of the round has
  a score below that of \<open>w\<close>, in the double arithmetic of the code and with the carbon
  that the code reads; and it selects nothing only when no answer has a score below
  \<open>Infinity\<close>.
\<close>

lemma selected_is_not_beaten:
  assumes "bestResult (run_selection fl api prompt ms) = Some w"
    and "m \<in> set ms" and "api (payload_for prompt m) = Json r"
  shows "\<not> js_lt (score_of fl r) (score_of fl w)"
proof -
  from run_selection_some [OF assms(1)] obtain j where "first_best fl api prompt ms j w"
    by blast
  then have "\<forall>i<length ms. \<forall>r. api (payload_for prompt (ms ! i)) = Json r \<longrightarrow>
        \<not> js_lt (score_of fl r) (score_of fl w)"
    by (simp add: first_best_def)
  with assms(2,3) show ?thesis
    by (metis in_set_conv_nth)
qed

lemma sent_run_selection:
  "sent (run_selection fl api prompt ms) = map (payload_for prompt) ms"
  by (simp add: run_selection_def sent_foldl)

lemma allEstimates_record_winner:
  "allEstimates (record_winner e s sel r) = allEstimates s @ [r]"
  by (simp add: record_winner_def Let_def)

lemma try_model_cong:
  "api' (payload_for prompt m) = api (payload_for prompt m) \<Longrightarrow>
   try_model fl api' prompt st m = try_model fl api prompt st m"
  by (simp add: try_model_def)

lemma run_selection_cong:
  assumes "\<forall>m\<in>set ms. api' (payload_for prompt m) = api (payload_for prompt m)"
  shows "run_selection fl api' prompt ms = run_selection fl api prompt ms"
  unfolding run_selection_def
proof (rule foldl_cong)
  fix st m assume "m \<in> set ms"
  with assms have "api' (payload_for prompt m) = api (payload_for prompt m)" by blast
  then show "try_model fl api' prompt st m = try_model fl api prompt st m"
    by (rule try_model_cong)
qed (rule refl)+

subsection \<open>The three ways out of the handler\<close>

lemma handle_no_winner:
  assumes "trim (input s) \<noteq> []" and "detectPromptType (input s) \<noteq> ''image''"
    and "availableModels s \<noteq> []"
    and "bestResult (run_selection (rounding e) (estimate_api e) (input s) (availableModels s)) = None"
  shows "handleSingleEstimate e s =
           (map (payload_for (input s)) (availableModels s),
            s\<lparr>loading := False, error := no_results_message\<rparr>)"
  using assms by (simp add: handleSingleEstimate_def Let_def sent_run_selection)

lemma handle_winner:
  assumes "trim (input s) \<noteq> []" and "detectPromptType (input s) \<noteq> ''image''"
    and "availableModels s \<noteq> []"
    and "bestResult (run_selection (rounding e) (estimate_api e) (input s) (availableModels s)) = Some w"
  shows "handleSingleEstimate e s =
           (map (payload_for (input s)) (availableModels s),
            (record_winner e (s\<lparr>loading := True, error := []\<rparr>)
               (run_selection (rounding e) (estimate_api e) (input s) (availableModels s)) w)
              \<lparr>loading := False\<rparr>)"
  using assms by (simp add: handleSingleEstimate_def Let_def sent_run_selection)

lemma handle_no_models:
  assumes "trim (input s) \<noteq> []" and "detectPromptType (input s) \<noteq> ''image''"
    and "availableModels s = []"
  shows "handleSingleEstimate e s = ([], s\<lparr>loading := False, error := no_models_message\<rparr>)"
  using assms by (simp add: handleSingleEstimate_def Let_def)

subsection \<open>The sample rounds\<close>

lemma prompt_state_text:
  "trim (input prompt_state) \<noteq> [] \<and> detectPromptType (input prompt_state) \<noteq> ''image''"
  by (simp add: prompt_state_def initial_state_def ascii_def trim_def is_whitespace_def
        detectPromptType_def toLowerCase_def lower_char_def imageKeywords_def)

lemma prompt_state_models:
  "availableModels prompt_state =
     [''gemini-2.0-flash'', ''mistral-7b-openrouter'', ''nvidia-qwen-coder'']"
  by (simp add: prompt_state_def initial_state_def)

lemma tie_answers:
  "tie_api (payload_for p ''gemini-2.0-flash'') =
     Json (sample_result ''gemini-2.0-flash'' (1 / 4) 75)"
  "tie_api (payload_for p ''mistral-7b-openrouter'') =
     Json (sample_result ''mistral-7b-openrouter'' (1 / 2) 100)"
  "tie_api (payload_for p ''nvidia-qwen-coder'') =
     Json (sample_result ''nvidia-qwen-coder'' 0 25)"
  "tie_api_again (payload_for p ''gemini-2.0-flash'') =
     Json (sample_result ''gemini-2.0-flash'' (1 / 4) 75)"
  "tie_api_again (payload_for p ''mistral-7b-openrouter'') =
     Json (sample_result ''mistral-7b-openrouter'' (1 / 2) 100)"
  "tie_api_again (payload_for p ''nvidia-qwen-coder'') =
     Json (sample_result ''nvidia-qwen-coder'' 0 25)"
  by (simp_all add: tie_api_def tie_api_again_def payload_for_def)

lemma tie_scores:
  "score_of Num (sample_result ''gemini-2.0-flash'' (1 / 4) 75) = Num (1 / 2)"
  "score_of Num (sample_result ''mistral-7b-openrouter'' (1 / 2) 100) = Num (1 / 2)"
  "score_of Num (sample_result ''nvidia-qwen-coder'' 0 25) = Num (3 / 4)"
  by (simp_all add: score_of_def result_carbon_def result_accuracy_def accuracyNormalized_def
        sample_result_def)

lemma tie_round:
  "bestResult (run_selection Num tie_api p
      [''gemini-2.0-flash'', ''mistral-7b-openrouter'', ''nvidia-qwen-coder''])
     = Some (sample_result ''gemini-2.0-flash'' (1 / 4) 75)"
  by (simp add: run_selection_def try_model_def selection_init_def tie_answers tie_scores
        below_best_def Let_def)

lemma failing_answers:
  "failing_api (payload_for p ''gemini-2.0-flash'') = Threw"
  "failing_api (payload_for p ''mistral-7b-openrouter'') = NotOk"
  "failing_api (payload_for p ''nvidia-qwen-coder'') = NotOk"
  by (simp_all add: failing_api_def payload_for_def)

lemma failing_round:
  "handleSingleEstimate (sample_env failing_api) prompt_state =
     (map (payload_for (input prompt_state))
        [''gemini-2.0-flash'', ''mistral-7b-openrouter'', ''nvidia-qwen-coder''],
      prompt_state\<lparr>loading := False, error := no_results_message\<rparr>)"
proof -
  have "bestResult (run_selection Num failing_api (input prompt_state)
          (availableModels prompt_state)) = None"
    by (simp add: prompt_state_models run_selection_def try_model_def selection_init_def
          failing_answers Let_def)
  then show ?thesis
    using prompt_state_text
    by (simp add: handleSingleEstimate_def Let_def sent_run_selection prompt_state_models
          sample_env_def)
qed

lemma grams_answers:
  "grams_api (payload_for p ''gemini-2.0-flash'') = Json grams_result"
  "grams_api (payload_for p ''mistral-7b-openrouter'') =
     Json (sample_result ''mistral-7b-openrouter'' 1 50)"
  "grams_api (payload_for p ''nvidia-qwen-coder'') = NotOk"
  by (simp_all add: grams_api_def payload_for_def)

lemma grams_scores:
  assumes "fl (1 / 2) = Num (1 / 2)" and "fl (3 / 2) = Num (3 / 2)" and "fl (9 / 2) = Num (9 / 2)"
  shows "score_of fl grams_result = Num (9 / 2)"
    and "score_of fl (sample_result ''mistral-7b-openrouter'' 1 50) = Num (3 / 2)"
  using assms
  by (simp_all add: score_of_def result_carbon_def result_accuracy_def accuracyNormalized_def
        sample_result_def grams_result_def)

lemma grams_spec_scores:
  "spec_score grams_result = 63 / 125"
  "spec_score (sample_result ''mistral-7b-openrouter'' 1 50) = 3 / 2"
  by (simp_all add: spec_score_def spec_carbon_kg_def result_accuracy_def accuracyDisplay_def
        sample_result_def grams_result_def)

subsection \<open>Properties of the selection\<close>

text \<open>
  Claim C1 does not hold of the code. The claim scores a candidate by its carbon in
  kilograms plus one minus a hundredth of its accuracy. The code takes
  \<open>carbon_emitted_grams\<close> for the carbon when \<open>carbon_emitted_kgco2\<close> is missing or
  zero, and adds the number of grams as it is. In the round below the first model reports
  4 g and the second 1 kg, both with an accuracy of 50: the first has the lower score in
  the words of the claim (0.504 against 1.5), the code scores it 4.5 and selects the
  second. Every number of the round is a double, so the hypotheses on the rounding hold
  for the arithmetic of IEEE 754.
\<close>

theorem grams_fallback_decides_winner:
  assumes "fl (1 / 2) = Num (1 / 2)" and "fl (3 / 2) = Num (3 / 2)" and "fl (9 / 2) = Num (9 / 2)"
  shows "bestResult (run_selection fl grams_api (input prompt_state) (availableModels prompt_state))
           = Some (sample_result ''mistral-7b-openrouter'' 1 50) \<and>
         bestModel (run_selection fl grams_api (input prompt_state) (availableModels prompt_state))
           = ''mistral-7b-openrouter'' \<and>
         allEstimates (snd (handleSingleEstimate
             ((sample_env grams_api)\<lparr>rounding := fl\<rparr>) prompt_state))
           = [sample_result ''mistral-7b-openrouter'' 1 50] \<and>
         score_of fl grams_result = Num (9 / 2) \<and>
         score_of fl (sample_result ''mistral-7b-openrouter'' 1 50) = Num (3 / 2) \<and>
         spec_score grams_result < spec_score (sample_result ''mistral-7b-openrouter'' 1 50)"
proof -
  let ?sel = "run_selection fl grams_api (input prompt_state) (availableModels prompt_state)"
  let ?m = "sample_result ''mistral-7b-openrouter'' 1 50"
  note sc = grams_scores [OF assms]
  have best: "bestResult ?sel = Some ?m" and model: "bestModel ?sel = ''mistral-7b-openrouter''"
    by (simp_all add: prompt_state_models run_selection_def try_model_def selection_init_def
          grams_answers sc below_best_def Let_def)
  have nb: "trim (input prompt_state) \<noteq> []"
    and noimg: "detectPromptType (input prompt_state) \<noteq> ''image''"
    using prompt_state_text by simp_all
  have ne: "availableModels prompt_state \<noteq> []"
    by (simp add: prompt_state_models)
  let ?e = "(sample_env grams_api)\<lparr>rounding := fl\<rparr>"
  have e: "rounding ?e = fl" "estimate_api ?e = grams_api"
    by (simp_all add: sample_env_def)
  have "bestResult (run_selection (rounding ?e) (estimate_api ?e) (input prompt_state)
          (availableModels prompt_state)) = Some ?m"
    using best by (simp only: e)
  from handle_winner [OF nb noimg ne this]
  have hist: "allEstimates (snd (handleSingleEstimate ?e prompt_state)) = [?m]"
    by (simp add: allEstimates_record_winner prompt_state_def initial_state_def)
  have spec: "spec_score grams_result < spec_score ?m"
    by (simp add: grams_spec_scores)
  from best model hist sc spec show ?thesis by blast
qed

theorem grams_fallback_decides_winner_witness:
  "Num (1 / 2) = Num (1 / 2) \<and>
   bestModel (run_selection Num grams_api (input prompt_state) (availableModels prompt_state))
     = ''mistral-7b-openrouter'' \<and>
   score_of Num grams_result = Num (9 / 2) \<and>
   spec_score grams_result < spec_score (sample_result ''mistral-7b-openrouter'' 1 50)"
  using grams_fallback_decides_winner [of Num] by simp

text \<open>
  Claim C3. When the loop selects \<open>w\<close>, every model whose answer has the score of
  \<open>w\<close> comes no earlier in the list than the model that gave \<open>w\<close>: the loop replaces
  the best result only by a strictly smaller score. The scores are the doubles that the
  code computes and compares, whatever the rounding. The outcome of the loop is determined
  by the answers to its requests alone: two endpoints that answer these requests alike
  give the same selection.
\<close>

theorem tie_goes_to_earlier_provider:
  assumes best: "bestResult (run_selection fl api prompt models) = Some w"
    and i: "i < length models"
    and r: "api (payload_for prompt (models ! i)) = Json r"
    and tie: "score_of fl r = score_of fl w"
    and same: "\<forall>m\<in>set models. api' (payload_for prompt m) = api (payload_for prompt m)"
  shows "(\<exists>j\<le>i. bestModel (run_selection fl api prompt models) = models ! j \<and>
                api (payload_for prompt (models ! j)) = Json w) \<and>
         run_selection fl api' prompt models = run_selection fl api prompt models"
proof -
  from run_selection_some [OF best] obtain j
    where fb: "first_best fl api prompt models j w"
      and bm: "bestModel (run_selection fl api prompt models) = models ! j"
    by blast
  from fb have jw: "api (payload_for prompt (models ! j)) = Json w"
    and before: "\<forall>k<j. \<forall>r. api (payload_for prompt (models ! k)) = Json r
                   \<longrightarrow> score_of fl r \<noteq> score_of fl w"
    by (simp_all add: first_best_def)
  have "j \<le> i"
  proof (rule ccontr)
    assume "\<not> j \<le> i"
    then have "i < j" by simp
    with before r have "score_of fl r \<noteq> score_of fl w" by blast
    with tie show False by simp
  qed
  with bm jw run_selection_cong [OF same] show ?thesis by blast
qed

text \<open>
  The first two models tie at the score \<open>1 / 2\<close>, which both reach without rounding;
  the first one wins.
\<close>

theorem tie_goes_to_earlier_provider_witness:
  "bestResult (run_selection Num tie_api (ascii ''Write bubble sort'')
      [''gemini-2.0-flash'', ''mistral-7b-openrouter'', ''nvidia-qwen-coder''])
     = Some (sample_result ''gemini-2.0-flash'' (1 / 4) 75) \<and>
   tie_api (payload_for (ascii ''Write bubble sort'')
      ([''gemini-2.0-flash'', ''mistral-7b-openrouter'', ''nvidia-qwen-coder''] ! 1))
     = Json (sample_result ''mistral-7b-openrouter'' (1 / 2) 100) \<and>
   score_of Num (sample_result ''mistral-7b-openrouter'' (1 / 2) 100)
     = score_of Num (sample_result ''gemini-2.0-flash'' (1 / 4) 75) \<and>
   bestModel (run_selection Num tie_api (ascii ''Write bubble sort'')
      [''gemini-2.0-flash'', ''mistral-7b-openrouter'', ''nvidia-qwen-coder''])
     = ''gemini-2.0-flash'' \<and>
   run_selection Num tie_api_again (ascii ''Write bubble sort'')
      [''gemini-2.0-flash'', ''mistral-7b-openrouter'', ''nvidia-qwen-coder'']
     = run_selection Num tie_api (ascii ''Write bubble sort'')
      [''gemini-2.0-flash'', ''mistral-7b-openrouter'', ''nvidia-qwen-coder'']"
proof -
  let ?p = "ascii ''Write bubble sort''"
  let ?L = "[''gemini-2.0-flash'', ''mistral-7b-openrouter'', ''nvidia-qwen-coder'']"
  let ?g = "sample_result ''gemini-2.0-flash'' (1 / 4) 75"
  let ?m = "sample_result ''mistral-7b-openrouter'' (1 / 2) 100"
  have best: "bestResult (run_selection Num tie_api ?p ?L) = Some ?g"
    by (rule tie_round)
  have i: "(1::nat) < length ?L" by simp
  have r: "tie_api (payload_for ?p (?L ! 1)) = Json ?m"
    by (simp add: tie_answers)
  have tie: "score_of Num ?m = score_of Num ?g"
    by (simp add: tie_scores)
  have same: "\<forall>m\<in>set ?L. tie_api_again (payload_for ?p m) = tie_api (payload_for ?p m)"
    by (simp add: tie_answers)
  have differ: "?m \<noteq> ?g"
    by (simp add: sample_result_def)
  from tie_goes_to_earlier_provider [OF best i r tie same] obtain j
    where j: "j \<le> 1" and bm: "bestModel (run_selection Num tie_api ?p ?L) = ?L ! j"
      and jw: "tie_api (payload_for ?p (?L ! j)) = Json ?g"
      and again: "run_selection Num tie_api_again ?p ?L = run_selection Num tie_api ?p ?L"
    by blast
  have "j = 0"
  proof (rule ccontr)
    assume "j \<noteq> 0"
    with j have "j = 1" by simp
    with jw r differ show False by simp
  qed
  with bm have "bestModel (run_selection Num tie_api ?p ?L) = ''gemini-2.0-flash''" by simp
  with best r tie again show ?thesis by blast
qed

text \<open>
  Claim C4, as stated, fails: the handler keeps no list of failures. Each failure is
  logged and skipped; with three models failing, the state differs from the one before in
  the error message alone, and the only list the loop builds, \<open>comparisonResults\<close>,
  holds successes and stays empty.
\<close>

theorem all_failed_keeps_no_failure_list:
  "length (availableModels prompt_state) = 3 \<and>
   snd (handleSingleEstimate (sample_env failing_api) prompt_state) =
     prompt_state\<lparr>loading := False, error := no_results_message\<rparr> \<and>
   comparisonList (run_selection (rounding (sample_env failing_api)) failing_api
      (input prompt_state) (availableModels prompt_state)) = [] \<and>
   comparisonResults (snd (handleSingleEstimate (sample_env failing_api) prompt_state)) = None \<and>
   chats (snd (handleSingleEstimate (sample_env failing_api) prompt_state)) = [] \<and>
   allEstimates (snd (handleSingleEstimate (sample_env failing_api) prompt_state)) = []"
proof -
  have a: "length (availableModels prompt_state) = 3"
    by (simp add: prompt_state_models)
  have b: "comparisonList (run_selection (rounding (sample_env failing_api)) failing_api
      (input prompt_state) (availableModels prompt_state)) = []"
    by (simp add: prompt_state_models run_selection_def try_model_def selection_init_def
          failing_answers Let_def)
  have c: "comparisonResults prompt_state = None \<and> chats prompt_state = [] \<and>
           allEstimates prompt_state = []"
    by (simp add: prompt_state_def initial_state_def)
  from a b c show ?thesis
    by (simp add: failing_round)
qed

text \<open>
  Claim C4, amended. When no model of the list answers with a result, the handler has
  sent one request to each model, raises nothing, and leaves the state as it was but for
  \<open>loading\<close>, which is false, and the error message, which says that no model gave a
  result (or, for an empty list, that no model is available).
\<close>

theorem all_providers_failed:
  assumes nb: "trim (input s) \<noteq> []" and noimg: "detectPromptType (input s) \<noteq> ''image''"
    and fail: "\<forall>m\<in>set (availableModels s). \<forall>r. estimate_api e (payload_for (input s) m) \<noteq> Json r"
  shows "handleSingleEstimate e s =
           (map (payload_for (input s)) (availableModels s),
            s\<lparr>loading := False,
              error := (if availableModels s = [] then no_models_message else no_results_message)\<rparr>)"
proof (cases "availableModels s = []")
  case True
  then show ?thesis by (simp add: handle_no_models [OF nb noimg True])
next
  case False
  from fail
  have "bestResult (run_selection (rounding e) (estimate_api e) (input s) (availableModels s)) = None"
    by (rule run_selection_all_failed)
  from handle_no_winner [OF nb noimg False this] False show ?thesis by simp
qed

theorem all_providers_failed_witness:
  "trim (input prompt_state) \<noteq> [] \<and> detectPromptType (input prompt_state) \<noteq> ''image'' \<and>
   failing_api (payload_for (input prompt_state) ''gemini-2.0-flash'') = Threw \<and>
   failing_api (payload_for (input prompt_state) ''mistral-7b-openrouter'') = NotOk \<and>
   failing_api (payload_for (input prompt_state) ''nvidia-qwen-coder'') = NotOk \<and>
   handleSingleEstimate (sample_env failing_api) prompt_state =
     (map (payload_for (input prompt_state)) (availableModels prompt_state),
      prompt_state\<lparr>loading := False, error := no_results_message\<rparr>)"
proof -
  have nb: "trim (input prompt_state) \<noteq> []"
    and noimg: "detectPromptType (input prompt_state) \<noteq> ''image''"
    using prompt_state_text by simp_all
  have fail: "\<forall>m\<in>set (availableModels prompt_state). \<forall>r.
      estimate_api (sample_env failing_api) (payload_for (input prompt_state) m) \<noteq> Json r"
    by (simp add: prompt_state_models sample_env_def failing_answers)
  from all_providers_failed [OF nb noimg fail]
  have "handleSingleEstimate (sample_env failing_api) prompt_state =
     (map (payload_for (input prompt_state)) (availableModels prompt_state),
      prompt_state\<lparr>loading := False, error := no_results_message\<rparr>)"
    by (simp add: prompt_state_models)
  with nb noimg show ?thesis by (simp add: failing_answers)
qed

text \<open>
  Claim C10. With a prompt that is empty, or made of the white space and line
  terminators that \<open>trim\<close> strips, the handler sends no request and returns the state
  unchanged.
\<close>

theorem blank_prompt_is_ignored:
  "trim (input s) = [] \<Longrightarrow> handleSingleEstimate e s = ([], s)"
  by (simp add: handleSingleEstimate_def)

text \<open>A prompt of white space beyond ASCII, and the empty prompt.\<close>

theorem blank_prompt_is_ignored_witness:
  "trim (input blank_state) = [] \<and>
   handleSingleEstimate (sample_env sample_api) blank_state = ([], blank_state) \<and>
   trim (input initial_state) = [] \<and>
   handleSingleEstimate (sample_env sample_api) initial_state = ([], initial_state)"
proof -
  have blank: "trim (input blank_state) = []"
    by (simp add: blank_state_def initial_state_def trim_def is_whitespace_def)
  have empty: "trim (input initial_state) = []"
    by (simp add: initial_state_def trim_def)
  show ?thesis
    using blank empty
      blank_prompt_is_ignored [OF blank, of "sample_env sample_api"]
      blank_prompt_is_ignored [OF empty, of "sample_env sample_api"]
    by simp
qed


end
